theory Spec2Isabelle
  imports Complex_Main "HOL-Library.Word"
begin

section \<open>The 3DR Radio status plugin (src/plugins/3dr_radio.cpp)\<close>

text \<open>
  A shallow embedding of the two classes of the plugin: \<open>TDRRadioStatus\<close>, the
  diagnostic task that keeps the last radio status and renders it, and
  \<open>TDRRadioPlugin\<close>, which receives MAVLink messages, feeds the task and republishes
  the status. The model is sequential: the \<open>boost::recursive_mutex\<close> that both methods
  of \<open>TDRRadioStatus\<close> take is not part of it, every method is one atomic step.
\<close>

subsection \<open>Data\<close>

type_synonym uint8_t = "8 word"
type_synonym uint16_t = "16 word"

text \<open>
  \<open>mavlink_radio_status_t\<close>, in the field order of the MAVLink header. The older
  \<open>mavlink_radio_t\<close> has the same seven fields ("actually the same data, but from
  earlier modems"); both payloads are values of this record, and the message
  constructor below says which of the two message ids carried it.
\<close>

record mavlink_radio_status_t =
  rxerrors :: uint16_t
  fixed :: uint16_t
  rssi :: uint8_t
  remrssi :: uint8_t
  txbuf :: uint8_t
  noise :: uint8_t
  remnoise :: uint8_t

text \<open>\<open>ros::Time\<close>: seconds and nanoseconds, both 32 bits wide.\<close>

record ros_time =
  sec :: "32 word"
  nsec :: "32 word"

text \<open>
  \<open>mavros::RadioStatus\<close>, the published message: the seven fields and the stamp of
  its header.
\<close>

record RadioStatus = mavlink_radio_status_t +
  header_stamp :: ros_time

text \<open>
  \<open>diagnostic_updater::DiagnosticStatusWrapper\<close>: the status a diagnostic task fills
  in. \<open>key_values\<close> (the member \<open>values\<close>) is the vector of key/value pairs, in insertion order.
\<close>

record DiagnosticStatusWrapper =
  level :: uint8_t
  name :: string
  message :: string
  hardware_id :: string
  key_values :: "(string \<times> string) list"

text \<open>
  The members of \<open>TDRRadioStatus\<close>; \<open>task_name\<close> is the name handed to the
  \<open>DiagnosticTask\<close> base class.
\<close>

record TDRRadioStatus =
  task_name :: string
  last_rst :: mavlink_radio_status_t
  data_received :: bool
  low_rssi :: uint8_t

record TDRRadioPlugin =
  tdr_diag :: TDRRadioStatus
  has_radio_status :: bool

text \<open>
  An inbound \<open>mavlink_message_t\<close>, by the \<open>msgid\<close> the callback switches on, with the
  payload the MAVLink decoder yields for it. The build is the one where
  \<open>MAVLINK_MSG_ID_RADIO\<close> is defined; in the other build the legacy message does not
  exist and every such message is one of \<open>MAVLINK_MSG_ID_other\<close>.
\<close>

datatype mavlink_message_t =
  MAVLINK_MSG_ID_RADIO_STATUS mavlink_radio_status_t
| MAVLINK_MSG_ID_RADIO mavlink_radio_status_t
| MAVLINK_MSG_ID_other

text \<open>
  What the plugin does to its collaborators: a call of
  \<open>ROS_WARN_THROTTLE_NAMED(period, name, text)\<close> (the macro itself limits the rate
  to one line per period), and a call of \<open>status_pub.publish\<close>.
\<close>

datatype effect =
  Warn_throttle_named nat string string
| Publish RadioStatus

subsection \<open>C arithmetic and formatting\<close>

text \<open>
  \<open>double\<close> and \<open>float\<close> are IEEE 754 binary64 and binary32 with the default
  rounding, to nearest with ties to even. A floating-point value is the rational
  number it denotes; \<open>fl p\<close> rounds a rational to \<open>p\<close> significant bits. The exponent
  is not bounded: every value this program computes has a magnitude between
  \<open>2\<^sup>-\<^sup>3\<close> and \<open>2\<^sup>8\<close>, or is zero.
\<close>

text \<open>The number of binary digits of a positive integer.\<close>

function bitlen :: "int \<Rightarrow> nat" where
  "bitlen n = (if n \<le> 0 then 0 else Suc (bitlen (n div 2)))"
  by pat_completeness auto
termination
  by (relation "measure nat") auto

declare bitlen.simps [simp del]

text \<open>The binary exponent of a positive rational: the \<open>k\<close> with \<open>2\<^sup>k \<le> x < 2\<^sup>k\<^sup>+\<^sup>1\<close>.\<close>

definition ilog2 :: "rat \<Rightarrow> int" where
  "ilog2 x = (if 1 \<le> x then int (bitlen \<lfloor>x\<rfloor>) - 1 else - int (bitlen (\<lceil>1 / x\<rceil> - 1)))"

text \<open>The nearest integer, the even one of the two when \<open>x\<close> is half-way.\<close>

definition round_ties_even :: "rat \<Rightarrow> int" where
  "round_ties_even x = (let f = \<lfloor>x\<rfloor>; d = x - of_int f
     in if d < 1 / 2 then f else if 1 / 2 < d then f + 1 else if even f then f else f + 1)"

text \<open>
  Rounding to \<open>p\<close> significant bits: with \<open>q\<close> the exponent of the last kept bit,
  the nearest multiple of \<open>2\<^sup>q\<close>.
\<close>

definition fl :: "nat \<Rightarrow> rat \<Rightarrow> rat" where
  "fl p x = (if x = 0 then 0 else
     let q = ilog2 \<bar>x\<bar> - int p + 1 in of_int (round_ties_even (x / 2 powi q)) * 2 powi q)"

definition double_of :: "rat \<Rightarrow> rat" where
  "double_of x = fl 53 x"

definition float_of :: "rat \<Rightarrow> rat" where
  "float_of x = fl 24 x"

text \<open>Decimal digits of a non-negative integer, as \<open>printf("%u")\<close> writes them.\<close>

function show_int :: "int \<Rightarrow> string" where
  "show_int n = (if n < 10 then [char_of (48 + n)] else show_int (n div 10) @ [char_of (48 + n mod 10)])"
  by pat_completeness auto
termination
  by (relation "measure nat") auto

declare show_int.simps [simp del]

definition printf_u :: "int \<Rightarrow> string" where
  "printf_u n = show_int n"

text \<open>
  \<open>printf("%.1f")\<close> of a \<open>double\<close>: the exact value rounded to one decimal, ties to
  even, with the sign of the value.
\<close>

definition printf_1f :: "rat \<Rightarrow> string" where
  "printf_1f x = (let t = round_ties_even (\<bar>x\<bar> * 10)
     in (if x < 0 then ''-'' else '''') @ show_int (t div 10) @ ''.'' @ show_int (t mod 10))"

subsection \<open>DiagnosticStatusWrapper\<close>

text \<open>\<open>summary(lvl, s)\<close> sets the level and the message.\<close>

definition stat_summary :: "uint8_t \<Rightarrow> string \<Rightarrow> DiagnosticStatusWrapper \<Rightarrow> DiagnosticStatusWrapper" where
  "stat_summary lvl s stat = stat\<lparr>level := lvl, message := s\<rparr>"

text \<open>\<open>add(key, value)\<close> pushes one pair at the back of \<open>values\<close> (\<open>key_values\<close> here).\<close>

definition stat_add :: "string \<Rightarrow> string \<Rightarrow> DiagnosticStatusWrapper \<Rightarrow> DiagnosticStatusWrapper" where
  "stat_add key val stat = stat\<lparr>key_values := key_values stat @ [(key, val)]\<rparr>"

text \<open>\<open>addf(key, "%u", x)\<close> and \<open>addf(key, "%.1f", x)\<close>: format, then \<open>add\<close>.\<close>

definition stat_addf_u :: "string \<Rightarrow> int \<Rightarrow> DiagnosticStatusWrapper \<Rightarrow> DiagnosticStatusWrapper" where
  "stat_addf_u key x stat = stat_add key (printf_u x) stat"

definition stat_addf_1f :: "string \<Rightarrow> rat \<Rightarrow> DiagnosticStatusWrapper \<Rightarrow> DiagnosticStatusWrapper" where
  "stat_addf_1f key x stat = stat_add key (printf_1f x) stat"

subsection \<open>TDRRadioStatus\<close>

text \<open>The constructor: no data yet, the threshold, and \<open>last_rst{}\<close> all zero.\<close>

definition TDRRadioStatus_init :: "string \<Rightarrow> uint8_t \<Rightarrow> TDRRadioStatus" where
  "TDRRadioStatus_init nm lowrssi =
     \<lparr>task_name = nm,
      last_rst = \<lparr>rxerrors = 0, fixed = 0, rssi = 0, remrssi = 0, txbuf = 0, noise = 0, remnoise = 0\<rparr>,
      data_received = False,
      low_rssi = lowrssi\<rparr>"

text \<open>\<open>set\<close>: the flag, then the seven \<open>RST_COPY\<close> assignments in their order.\<close>

definition TDRRadioStatus_set :: "mavlink_radio_status_t \<Rightarrow> TDRRadioStatus \<Rightarrow> TDRRadioStatus" where
  "TDRRadioStatus_set rst st =
     (let st1 = st\<lparr>data_received := True\<rparr>;
          st2 = st1\<lparr>last_rst := (last_rst st1)\<lparr>rssi := rssi rst\<rparr>\<rparr>;
          st3 = st2\<lparr>last_rst := (last_rst st2)\<lparr>remrssi := remrssi rst\<rparr>\<rparr>;
          st4 = st3\<lparr>last_rst := (last_rst st3)\<lparr>txbuf := txbuf rst\<rparr>\<rparr>;
          st5 = st4\<lparr>last_rst := (last_rst st4)\<lparr>noise := noise rst\<rparr>\<rparr>;
          st6 = st5\<lparr>last_rst := (last_rst st5)\<lparr>remnoise := remnoise rst\<rparr>\<rparr>;
          st7 = st6\<lparr>last_rst := (last_rst st6)\<lparr>rxerrors := rxerrors rst\<rparr>\<rparr>;
          st8 = st7\<lparr>last_rst := (last_rst st7)\<lparr>fixed := fixed rst\<rparr>\<rparr>
      in st8)"

text \<open>
  \<open>run\<close>: the summary by the first condition that holds, the two derived values,
  then the nine \<open>addf\<close> calls. The method is not \<open>const\<close>, so the model returns the
  object with the status it filled in.
\<close>

definition TDRRadioStatus_run ::
  "TDRRadioStatus \<Rightarrow> DiagnosticStatusWrapper \<Rightarrow> TDRRadioStatus \<times> DiagnosticStatusWrapper" where
  "TDRRadioStatus_run st stat =
     (let stat0 =
            (if \<not> data_received st then stat_summary 2 ''No data'' stat
             else if rssi (last_rst st) < low_rssi st then stat_summary 1 ''Low RSSI'' stat
             else if remrssi (last_rst st) < low_rssi st then stat_summary 1 ''Low remote RSSI'' stat
             else stat_summary 0 ''Normal'' stat);
          rssi_dbm = float_of (double_of
            (double_of (of_int (uint (rssi (last_rst st))) / double_of (19 / 10)) - 127));
          remrssi_dbm = float_of (double_of
            (double_of (of_int (uint (remrssi (last_rst st))) / double_of (19 / 10)) - 127));
          stat1 = stat_addf_u ''RSSI'' (uint (rssi (last_rst st))) stat0;
          stat2 = stat_addf_1f ''RSSI (dBm)'' rssi_dbm stat1;
          stat3 = stat_addf_u ''Remote RSSI'' (uint (remrssi (last_rst st))) stat2;
          stat4 = stat_addf_1f ''Remote RSSI (dBm)'' remrssi_dbm stat3;
          stat5 = stat_addf_u ''Tx buffer (%)'' (uint (txbuf (last_rst st))) stat4;
          stat6 = stat_addf_u ''Noice level'' (uint (noise (last_rst st))) stat5;
          stat7 = stat_addf_u ''Remote noice level'' (uint (remnoise (last_rst st))) stat6;
          stat8 = stat_addf_u ''Rx errors'' (uint (rxerrors (last_rst st))) stat7;
          stat9 = stat_addf_u ''Fixed'' (uint (fixed (last_rst st))) stat8
      in (st, stat9))"

subsection \<open>TDRRadioPlugin\<close>

text \<open>The constructor: \<open>tdr_diag("3DR Radio", 40)\<close>, \<open>has_radio_status(false)\<close>.\<close>

definition TDRRadioPlugin_init :: TDRRadioPlugin where
  "TDRRadioPlugin_init =
     \<lparr>tdr_diag = TDRRadioStatus_init ''3DR Radio'' 40, has_radio_status = False\<rparr>"

text \<open>
  \<open>handle_message\<close>: the warning when the sender is not system \<open>'3'\<close>, component
  \<open>'D'\<close>; then \<open>tdr_diag.set\<close>; then the message, copied field by field, stamped
  with \<open>ros::Time::now()\<close> (the argument \<open>now\<close>) and published.
\<close>

definition TDRRadioPlugin_handle_message ::
  "ros_time \<Rightarrow> mavlink_radio_status_t \<Rightarrow> uint8_t \<Rightarrow> uint8_t \<Rightarrow> TDRRadioPlugin
     \<Rightarrow> effect list \<times> TDRRadioPlugin" where
  "TDRRadioPlugin_handle_message now rst sysid compid p =
     (let warn = (if sysid \<noteq> of_char CHR ''3'' \<or> compid \<noteq> of_char CHR ''D''
                  then [Warn_throttle_named 30 ''radio'' ''RADIO_STATUS not from 3DR modem?'']
                  else []);
          p1 = p\<lparr>tdr_diag := TDRRadioStatus_set rst (tdr_diag p)\<rparr>;
          msg = \<lparr>rxerrors = rxerrors rst, fixed = fixed rst, rssi = rssi rst,
                 remrssi = remrssi rst, txbuf = txbuf rst, noise = noise rst,
                 remnoise = remnoise rst, header_stamp = now\<rparr>
      in (warn @ [Publish msg], p1))"

text \<open>
  \<open>message_rx_cb\<close>: a \<open>RADIO_STATUS\<close> sets the flag and is handled; a \<open>RADIO\<close>
  returns at once when the flag is set and is handled otherwise; any other id
  falls through the switch.
\<close>

fun TDRRadioPlugin_message_rx_cb ::
  "ros_time \<Rightarrow> mavlink_message_t \<Rightarrow> uint8_t \<Rightarrow> uint8_t \<Rightarrow> TDRRadioPlugin
     \<Rightarrow> effect list \<times> TDRRadioPlugin" where
  "TDRRadioPlugin_message_rx_cb now (MAVLINK_MSG_ID_RADIO_STATUS rst) sysid compid p =
     TDRRadioPlugin_handle_message now rst sysid compid (p\<lparr>has_radio_status := True\<rparr>)"
| "TDRRadioPlugin_message_rx_cb now (MAVLINK_MSG_ID_RADIO rst) sysid compid p =
     (if has_radio_status p then ([], p)
      else TDRRadioPlugin_handle_message now rst sysid compid p)"
| "TDRRadioPlugin_message_rx_cb now MAVLINK_MSG_ID_other sysid compid p = ([], p)"

subsection \<open>The derived value and the spec's formula\<close>

text \<open>
  The expression of lines 75 and 76, \<open>(x / 1.9) - 127\<close> assigned to a \<open>float\<close>, as a
  function of the raw value \<open>x\<close>: \<open>x\<close> converts to \<open>double\<close> exactly, the literals are
  \<open>double\<close>, the quotient and the difference are rounded to \<open>double\<close>, the
  assignment rounds to \<open>float\<close>.
\<close>

definition rssi_dbm_c :: "uint8_t \<Rightarrow> rat" where
  "rssi_dbm_c x = float_of (double_of (double_of (of_int (uint x) / double_of (19 / 10)) - 127))"

text \<open>
  The formula in the spec's words, \<open>rssi_dBm = (rssi / 1.9) - 127\<close>, in exact
  arithmetic.
\<close>

definition spec_rssi_dBm :: "uint8_t \<Rightarrow> rat" where
  "spec_rssi_dBm x = of_int (uint x) / (19 / 10) - 127"

subsection \<open>Sequences of calls\<close>

text \<open>A status that holds no key/value pair yet, as a caller hands it to \<open>run\<close>.\<close>

definition empty_status :: DiagnosticStatusWrapper where
  "empty_status = \<lparr>level = 0, name = [], message = [], hardware_id = [], key_values = []\<rparr>"

text \<open>The calls a \<open>TDRRadioStatus\<close> object receives in its lifetime, one after the other.\<close>

datatype tracker_call =
  Call_set mavlink_radio_status_t
| Call_run DiagnosticStatusWrapper

fun tracker_step :: "tracker_call \<Rightarrow> TDRRadioStatus \<Rightarrow> TDRRadioStatus" where
  "tracker_step (Call_set rst) st = TDRRadioStatus_set rst st"
| "tracker_step (Call_run stat) st = fst (TDRRadioStatus_run st stat)"

fun tracker_calls :: "tracker_call list \<Rightarrow> TDRRadioStatus \<Rightarrow> TDRRadioStatus" where
  "tracker_calls [] st = st"
| "tracker_calls (c # cs) st = tracker_calls cs (tracker_step c st)"

text \<open>
  One delivery to \<open>message_rx_cb\<close>: the message, the sender, and the clock reading
  at that moment. \<open>deliver\<close> runs the callback on the deliveries in order and collects
  what it did.
\<close>

record rx_event =
  ev_now :: ros_time
  ev_msg :: mavlink_message_t
  ev_sysid :: uint8_t
  ev_compid :: uint8_t

fun deliver :: "rx_event list \<Rightarrow> TDRRadioPlugin \<Rightarrow> effect list \<times> TDRRadioPlugin" where
  "deliver [] p = ([], p)"
| "deliver (ev # evs) p =
     (let (out1, p1) = TDRRadioPlugin_message_rx_cb (ev_now ev) (ev_msg ev) (ev_sysid ev) (ev_compid ev) p;
          (out2, p2) = deliver evs p1
      in (out1 @ out2, p2))"

section \<open>Rounding\<close>

lemma bitlen_bounds: "0 < n \<Longrightarrow> 2 ^ (bitlen n - 1) \<le> n \<and> n < 2 ^ bitlen n \<and> 0 < bitlen n"
proof (induction n rule: bitlen.induct)
  case (1 n)
  show ?case
  proof (cases "n div 2 \<le> 0")
    case True
    with 1 have "n = 1" by linarith
    then show ?thesis by (simp add: bitlen.simps)
  next
    case False
    then have pos: "0 < n div 2" by simp
    from 1 have nle: "\<not> n \<le> 0" by simp
    from 1(1)[OF nle pos] have ih: "2 ^ (bitlen (n div 2) - 1) \<le> n div 2"
      "n div 2 < 2 ^ bitlen (n div 2)" "0 < bitlen (n div 2)"
      by simp_all
    have b: "bitlen n = Suc (bitlen (n div 2))" using nle by (subst bitlen.simps) simp
    from ih(3) have "(2::int) ^ bitlen (n div 2) = 2 * 2 ^ (bitlen (n div 2) - 1)"
      by (cases "bitlen (n div 2)") simp_all
    with ih(1) have l: "2 ^ bitlen (n div 2) \<le> n" by linarith
    from ih(2) have u: "n < 2 * 2 ^ bitlen (n div 2)" by linarith
    show ?thesis using l u by (simp add: b)
  qed
qed

lemma ilog2_bounds:
  assumes "0 < x"
  shows "2 powi (ilog2 x) \<le> x" and "x < 2 powi (ilog2 x + 1)"
proof -
  have "2 powi (ilog2 x) \<le> x \<and> x < 2 powi (ilog2 x + 1)"
  proof (cases "1 \<le> x")
    case True
    then have fpos: "0 < \<lfloor>x\<rfloor>" by simp
    let ?b = "bitlen \<lfloor>x\<rfloor>"
    from bitlen_bounds[OF fpos] have b: "2 ^ (?b - 1) \<le> \<lfloor>x\<rfloor>" "\<lfloor>x\<rfloor> < 2 ^ ?b" "0 < ?b"
      by simp_all
    have il: "ilog2 x = int (?b - 1)" using True b(3) by (simp add: ilog2_def)
    have "rat_of_int (2 ^ (?b - 1)) \<le> rat_of_int \<lfloor>x\<rfloor>" using b(1) by (simp only: of_int_le_iff)
    also have "\<dots> \<le> x" by simp
    finally have lo: "2 ^ (?b - 1) \<le> x" by simp
    from b(2) have "\<lfloor>x\<rfloor> + 1 \<le> 2 ^ ?b" by simp
    then have "rat_of_int (\<lfloor>x\<rfloor> + 1) \<le> rat_of_int (2 ^ ?b)" by (simp only: of_int_le_iff)
    moreover have "x < rat_of_int (\<lfloor>x\<rfloor> + 1)" by linarith
    ultimately have hi: "x < 2 ^ ?b" by simp
    have e1: "(2::rat) powi (ilog2 x) = 2 ^ (?b - 1)"
      by (simp only: il power_int_of_nat)
    have "ilog2 x + 1 = int ?b" using b(3) by (simp add: il)
    then have e2: "(2::rat) powi (ilog2 x + 1) = 2 ^ ?b"
      by (simp only: power_int_of_nat)
    show ?thesis using lo hi by (simp only: e1 e2)
  next
    case False
    with assms have x1: "x < 1" by simp
    then have "1 < 1 / x" using assms by simp
    then have cpos: "0 < \<lceil>1 / x\<rceil> - 1" by linarith
    let ?c = "bitlen (\<lceil>1 / x\<rceil> - 1)"
    from bitlen_bounds[OF cpos] have c: "2 ^ (?c - 1) \<le> \<lceil>1 / x\<rceil> - 1"
      "\<lceil>1 / x\<rceil> - 1 < 2 ^ ?c" "0 < ?c"
      by simp_all
    have il: "ilog2 x = - int ?c" using False by (simp add: ilog2_def)
    from c(2) have "\<lceil>1 / x\<rceil> \<le> 2 ^ ?c" by simp
    then have "rat_of_int \<lceil>1 / x\<rceil> \<le> rat_of_int (2 ^ ?c)" by (simp only: of_int_le_iff)
    then have a1: "rat_of_int \<lceil>1 / x\<rceil> \<le> 2 ^ ?c" by simp
    have a2: "1 / x \<le> rat_of_int \<lceil>1 / x\<rceil>" by (rule le_of_int_ceiling)
    from a1 a2 have "1 / x \<le> 2 ^ ?c" by (rule order_trans[rotated])
    then have "1 \<le> 2 ^ ?c * x" using assms by (simp add: field_simps)
    then have lo: "1 / 2 ^ ?c \<le> x" by (simp add: field_simps)
    from c(1) have "rat_of_int (2 ^ (?c - 1)) \<le> rat_of_int (\<lceil>1 / x\<rceil> - 1)"
      by (simp only: of_int_le_iff)
    then have a3: "2 ^ (?c - 1) \<le> rat_of_int \<lceil>1 / x\<rceil> - 1" by simp
    have a4: "rat_of_int \<lceil>1 / x\<rceil> - 1 < 1 / x" by linarith
    from a3 a4 have "2 ^ (?c - 1) < 1 / x" by (rule le_less_trans)
    then have "2 ^ (?c - 1) * x < 1" using assms by (simp add: field_simps)
    then have hi: "x < 1 / 2 ^ (?c - 1)" by (simp add: field_simps)
    have g: "(2::rat) powi (- int k) = 1 / 2 ^ k" for k
      by (simp add: power_int_minus field_simps)
    have e1: "(2::rat) powi (- int ?c) = 1 / 2 ^ ?c"
      by (rule g)
    have "- int ?c + 1 = - int (?c - 1)" using c(3) by simp
    then have e2: "(2::rat) powi (- int ?c + 1) = 1 / 2 ^ (?c - 1)"
      by (simp only: g)
    show ?thesis using lo hi by (simp only: il e1 e2)
  qed
  then show "2 powi (ilog2 x) \<le> x" and "x < 2 powi (ilog2 x + 1)" by simp_all
qed

lemma round_ties_even_err: "\<bar>rat_of_int (round_ties_even x) - x\<bar> \<le> 1 / 2"
proof -
  have "rat_of_int \<lfloor>x\<rfloor> \<le> x" "x < rat_of_int \<lfloor>x\<rfloor> + 1" by linarith+
  then show ?thesis
    by (auto simp: round_ties_even_def Let_def)
qed

lemma round_ties_even_unique:
  assumes "\<bar>x - rat_of_int n\<bar> < 1 / 2"
  shows "round_ties_even x = n"
proof -
  have f: "rat_of_int \<lfloor>x\<rfloor> \<le> x" "x < rat_of_int \<lfloor>x\<rfloor> + 1" by linarith+
  from assms have n: "rat_of_int n - 1 / 2 < x" "x < rat_of_int n + 1 / 2" by linarith+
  have "rat_of_int n < rat_of_int \<lfloor>x\<rfloor> + 2" using f n by linarith
  then have "rat_of_int n < rat_of_int (\<lfloor>x\<rfloor> + 2)" by simp
  then have u: "n < \<lfloor>x\<rfloor> + 2" by (simp only: of_int_less_iff)
  have "rat_of_int \<lfloor>x\<rfloor> < rat_of_int n + 1" using f n by linarith
  then have "rat_of_int \<lfloor>x\<rfloor> < rat_of_int (n + 1)" by simp
  then have l: "\<lfloor>x\<rfloor> < n + 1" by (simp only: of_int_less_iff)
  from l u consider "n = \<lfloor>x\<rfloor>" | "n = \<lfloor>x\<rfloor> + 1" by linarith
  then show ?thesis
  proof cases
    case 1
    with n have "x - rat_of_int \<lfloor>x\<rfloor> < 1 / 2" by simp
    then show ?thesis using 1 by (simp add: round_ties_even_def Let_def)
  next
    case 2
    with n have "1 / 2 < x - rat_of_int \<lfloor>x\<rfloor>" by simp
    then show ?thesis using 2 by (simp add: round_ties_even_def Let_def)
  qed
qed

text \<open>Rounding to \<open>p\<close> bits moves a value by at most the fraction \<open>2\<^sup>-\<^sup>p\<close> of it.\<close>

lemma fl_err: "\<bar>fl p x - x\<bar> \<le> \<bar>x\<bar> / 2 ^ p"
proof (cases "x = 0")
  case True
  then show ?thesis by (simp add: fl_def)
next
  case False
  then have ax: "0 < \<bar>x\<bar>" by simp
  define q where "q = ilog2 \<bar>x\<bar> - int p + 1"
  define s :: rat where "s = 2 powi q"
  have spos: "0 < s" by (simp add: s_def)
  have flx: "fl p x = rat_of_int (round_ties_even (x / s)) * s"
    using False by (simp add: fl_def Let_def q_def s_def)
  have "fl p x - x = (rat_of_int (round_ties_even (x / s)) - x / s) * s"
    using spos by (simp add: flx field_simps)
  then have "\<bar>fl p x - x\<bar> = \<bar>rat_of_int (round_ties_even (x / s)) - x / s\<bar> * s"
    using spos by (simp add: abs_mult)
  also have "\<dots> \<le> (1 / 2) * s"
    using round_ties_even_err[of "x / s"] spos by (intro mult_right_mono) simp_all
  finally have h: "\<bar>fl p x - x\<bar> \<le> s / 2" by simp
  have "s = 2 powi (ilog2 \<bar>x\<bar>) * 2 powi (1 - int p)"
    by (simp add: s_def q_def power_int_add[symmetric] algebra_simps)
  also have "(2::rat) powi (1 - int p) = 2 / 2 ^ p"
    by (simp add: power_int_diff)
  finally have "s / 2 = 2 powi (ilog2 \<bar>x\<bar>) / 2 ^ p" by simp
  also have "\<dots> \<le> \<bar>x\<bar> / 2 ^ p"
    using ilog2_bounds(1)[OF ax] by (simp add: divide_right_mono)
  finally show ?thesis using h by linarith
qed

section \<open>The derived value against the formula\<close>

lemma double_19_10: "double_of (19 / 10) = 4278419646001971 / 2251799813685248"
  by code_simp

lemma uint8_range: "0 \<le> rat_of_int (uint (r::uint8_t)) \<and> rat_of_int (uint r) \<le> 255"
proof -
  have "uint r < 2 ^ 8" using uint_bounded[of r] by simp
  then have "uint r \<le> 255" by simp
  then have a: "rat_of_int (uint r) \<le> rat_of_int 255" by (simp only: of_int_le_iff)
  have "0 \<le> uint r" by (rule uint_ge_0)
  then have b: "rat_of_int 0 \<le> rat_of_int (uint r)" by (simp only: of_int_le_iff)
  from a b show ?thesis by (simp only: of_int_0 of_int_numeral)
qed

text \<open>The stored \<open>float\<close> is within \<open>0.00002\<close> of the exact value of the formula.\<close>

lemma rssi_dbm_c_close: "\<bar>rssi_dbm_c r - spec_rssi_dBm r\<bar> < 1 / 50000"
proof -
  define u where "u = rat_of_int (uint r)"
  define q0 where "q0 = u / double_of (19 / 10)"
  define q where "q = double_of q0"
  define d where "d = double_of (q - 127)"
  define f where "f = float_of d"
  have u: "0 \<le> u" "u \<le> 255" using uint8_range[of r] by (simp_all add: u_def)
  have q0: "q0 = u * (2251799813685248 / 4278419646001971)"
    by (simp add: q0_def double_19_10)
  have sp: "spec_rssi_dBm r = u * (10 / 19) - 127"
    by (simp add: spec_rssi_dBm_def u_def)
  have q0b: "0 \<le> q0" "q0 \<le> 135" using u by (simp_all add: q0)
  have q0s: "\<bar>q0 - u * (10 / 19)\<bar> \<le> 1 / 1000000000" using u by (simp add: q0)
  have "\<bar>q - q0\<bar> \<le> \<bar>q0\<bar> / 2 ^ 53" unfolding q_def double_of_def by (rule fl_err)
  moreover have "\<bar>q0\<bar> / 2 ^ 53 \<le> 1 / 1000000000" using q0b by simp
  ultimately have qe: "\<bar>q - q0\<bar> \<le> 1 / 1000000000" by linarith
  have qb: "\<bar>q - 127\<bar> \<le> 263" using qe q0b by linarith
  have "\<bar>d - (q - 127)\<bar> \<le> \<bar>q - 127\<bar> / 2 ^ 53" unfolding d_def double_of_def by (rule fl_err)
  moreover have "\<bar>q - 127\<bar> / 2 ^ 53 \<le> 1 / 1000000000" using qb by simp
  ultimately have de: "\<bar>d - (q - 127)\<bar> \<le> 1 / 1000000000" by linarith
  have db: "\<bar>d\<bar> \<le> 264" using de qb by linarith
  have "\<bar>f - d\<bar> \<le> \<bar>d\<bar> / 2 ^ 24" unfolding f_def float_of_def by (rule fl_err)
  moreover have "\<bar>d\<bar> / 2 ^ 24 \<le> 16 / 1000000" using db by simp
  ultimately have fe: "\<bar>f - d\<bar> \<le> 16 / 1000000" by linarith
  have "rssi_dbm_c r = f"
    by (simp add: rssi_dbm_c_def f_def d_def q_def q0_def u_def)
  moreover have "\<bar>f - (u * (10 / 19) - 127)\<bar> < 1 / 50000"
    using fe de qe q0s by linarith
  ultimately show ?thesis by (simp add: sp)
qed

lemma printf_1f_cong:
  assumes "(x < 0) = (y < 0)" and "round_ties_even (\<bar>x\<bar> * 10) = round_ties_even (\<bar>y\<bar> * 10)"
  shows "printf_1f x = printf_1f y"
  using assms by (simp add: printf_1f_def)

text \<open>
  The exact value is a multiple of \<open>1/19\<close> and never zero, so it is at least
  \<open>1/380\<close> away from every point where the first decimal changes: the \<open>float\<close>
  prints as the exact value does.
\<close>

lemma printf_1f_rssi_dbm_c: "printf_1f (rssi_dbm_c r) = printf_1f (spec_rssi_dBm r)"
proof -
  define N where "N = 10 * uint r - 2413"
  define M where "M = 10 * \<bar>N\<bar>"
  define n where "n = (M + 9) div 19"
  define e where "e = spec_rssi_dBm r"
  define f where "f = rssi_dbm_c r"
  have close: "\<bar>f - e\<bar> < 1 / 50000"
    unfolding f_def e_def by (rule rssi_dbm_c_close)
  have "rat_of_int N = 10 * rat_of_int (uint r) - 2413"
    unfolding N_def by (simp only: of_int_diff of_int_mult of_int_numeral)
  then have e19: "e * 19 = rat_of_int N"
    by (simp add: e_def spec_rssi_dBm_def)
  have "N \<noteq> 0" unfolding N_def by presburger
  then consider "1 \<le> N" | "N \<le> - 1" by linarith
  then have sgn: "(f < 0) = (e < 0) \<and> \<bar>e\<bar> * 19 = rat_of_int \<bar>N\<bar>"
  proof cases
    case 1
    then have "rat_of_int 1 \<le> rat_of_int N" by (simp only: of_int_le_iff)
    then have "1 \<le> e * 19" by (simp add: e19)
    moreover have "\<bar>N\<bar> = N" using 1 by simp
    ultimately show ?thesis using close e19 by (simp only:) linarith
  next
    case 2
    then have "rat_of_int N \<le> rat_of_int (- 1)" by (simp only: of_int_le_iff)
    then have "e * 19 \<le> - 1" by (simp add: e19)
    moreover have "rat_of_int \<bar>N\<bar> = - rat_of_int N" using 2 by simp
    ultimately show ?thesis using close e19 by (simp only:) linarith
  qed
  have "- 9 \<le> M - 19 * n \<and> M - 19 * n \<le> 9" unfolding n_def by presburger
  then have "rat_of_int (- 9) \<le> rat_of_int (M - 19 * n) \<and> rat_of_int (M - 19 * n) \<le> rat_of_int 9"
    by (simp only: of_int_le_iff)
  then have mn: "- 9 \<le> rat_of_int M - 19 * rat_of_int n" "rat_of_int M - 19 * rat_of_int n \<le> 9"
    by simp_all
  have "rat_of_int M = 10 * rat_of_int \<bar>N\<bar>"
    unfolding M_def by (simp only: of_int_mult of_int_numeral)
  with sgn have eM: "\<bar>e\<bar> * 10 * 19 = rat_of_int M" by simp
  have ce: "\<bar>\<bar>e\<bar> * 10 - rat_of_int n\<bar> < 1 / 2"
    using eM mn by linarith
  have cf: "\<bar>\<bar>f\<bar> * 10 - rat_of_int n\<bar> < 1 / 2"
    using eM mn close by linarith
  have "round_ties_even (\<bar>f\<bar> * 10) = round_ties_even (\<bar>e\<bar> * 10)"
    using round_ties_even_unique[OF ce] round_ties_even_unique[OF cf] by simp
  with sgn show ?thesis
    unfolding f_def e_def by (intro printf_1f_cong) simp_all
qed

section \<open>What the methods do\<close>

lemma run_state: "fst (TDRRadioStatus_run st stat) = st"
  by (simp add: TDRRadioStatus_run_def Let_def)

lemma run_level_message:
  "level (snd (TDRRadioStatus_run st stat)) =
     (if \<not> data_received st then 2
      else if rssi (last_rst st) < low_rssi st then 1
      else if remrssi (last_rst st) < low_rssi st then 1 else 0)"
  "message (snd (TDRRadioStatus_run st stat)) =
     (if \<not> data_received st then ''No data''
      else if rssi (last_rst st) < low_rssi st then ''Low RSSI''
      else if remrssi (last_rst st) < low_rssi st then ''Low remote RSSI'' else ''Normal'')"
  by (simp_all add: TDRRadioStatus_run_def Let_def stat_summary_def stat_add_def
      stat_addf_u_def stat_addf_1f_def)

lemma run_appends:
  "key_values (snd (TDRRadioStatus_run st stat)) = key_values stat @
     [(''RSSI'', printf_u (uint (rssi (last_rst st)))),
      (''RSSI (dBm)'', printf_1f (rssi_dbm_c (rssi (last_rst st)))),
      (''Remote RSSI'', printf_u (uint (remrssi (last_rst st)))),
      (''Remote RSSI (dBm)'', printf_1f (rssi_dbm_c (remrssi (last_rst st)))),
      (''Tx buffer (%)'', printf_u (uint (txbuf (last_rst st)))),
      (''Noice level'', printf_u (uint (noise (last_rst st)))),
      (''Remote noice level'', printf_u (uint (remnoise (last_rst st)))),
      (''Rx errors'', printf_u (uint (rxerrors (last_rst st)))),
      (''Fixed'', printf_u (uint (fixed (last_rst st))))]"
  by (simp add: TDRRadioStatus_run_def Let_def stat_summary_def stat_add_def
      stat_addf_u_def stat_addf_1f_def rssi_dbm_c_def)

lemma run_other_fields:
  "name (snd (TDRRadioStatus_run st stat)) = name stat"
  "hardware_id (snd (TDRRadioStatus_run st stat)) = hardware_id stat"
  by (simp_all add: TDRRadioStatus_run_def Let_def stat_summary_def stat_add_def
      stat_addf_u_def stat_addf_1f_def)

lemma set_eq: "TDRRadioStatus_set rst st = st\<lparr>data_received := True, last_rst := rst\<rparr>"
  by (simp add: TDRRadioStatus_set_def Let_def)

lemma handle_message_eq:
  "TDRRadioPlugin_handle_message now rst sysid compid p =
     ((if sysid = 0x33 \<and> compid = 0x44 then []
       else [Warn_throttle_named 30 ''radio'' ''RADIO_STATUS not from 3DR modem?''])
      @ [Publish \<lparr>rxerrors = rxerrors rst, fixed = fixed rst, rssi = rssi rst,
                   remrssi = remrssi rst, txbuf = txbuf rst, noise = noise rst,
                   remnoise = remnoise rst, header_stamp = now\<rparr>],
      p\<lparr>tdr_diag := TDRRadioStatus_set rst (tdr_diag p)\<rparr>)"
  by (simp add: TDRRadioPlugin_handle_message_def Let_def)

lemma printf_u_0: "printf_u 0 = ''0''"
  by code_simp

lemma printf_1f_dbm_0: "printf_1f (rssi_dbm_c 0) = ''-127.0''"
  by code_simp

lemma printf_1f_dbm_100: "printf_1f (rssi_dbm_c 100) = ''-74.4''"
  by code_simp

section \<open>The flags are latches\<close>

lemma tracker_step_keeps: "data_received st \<Longrightarrow> data_received (tracker_step c st)"
  by (cases c) (simp_all add: set_eq run_state)

lemma tracker_calls_keep: "data_received st \<Longrightarrow> data_received (tracker_calls cs st)"
  by (induction cs arbitrary: st) (simp_all add: tracker_step_keeps)

lemma rx_cb_latch:
  "has_radio_status p \<Longrightarrow>
     has_radio_status (snd (TDRRadioPlugin_message_rx_cb now m sysid compid p))"
  by (cases m) (simp_all add: handle_message_eq)

lemma deliver_latch: "has_radio_status p \<Longrightarrow> has_radio_status (snd (deliver evs p))"
proof (induction evs arbitrary: p)
  case Nil
  then show ?case by simp
next
  case (Cons ev evs)
  from Cons.prems have "has_radio_status
      (snd (TDRRadioPlugin_message_rx_cb (ev_now ev) (ev_msg ev) (ev_sysid ev) (ev_compid ev) p))"
    by (rule rx_cb_latch)
  then have "has_radio_status (snd (deliver evs
      (snd (TDRRadioPlugin_message_rx_cb (ev_now ev) (ev_msg ev) (ev_sysid ev) (ev_compid ev) p))))"
    by (rule Cons.IH)
  then show ?case by (simp add: split_beta Let_def)
qed

lemma deliver_sets_flag:
  "MAVLINK_MSG_ID_RADIO_STATUS rst0 \<in> ev_msg ` set evs \<Longrightarrow> has_radio_status (snd (deliver evs p))"
proof (induction evs arbitrary: p)
  case Nil
  then show ?case by simp
next
  case (Cons ev evs)
  let ?p1 = "snd (TDRRadioPlugin_message_rx_cb (ev_now ev) (ev_msg ev) (ev_sysid ev) (ev_compid ev) p)"
  have step: "snd (deliver (ev # evs) p) = snd (deliver evs ?p1)"
    by (simp add: split_beta Let_def)
  show ?case
  proof (cases "ev_msg ev = MAVLINK_MSG_ID_RADIO_STATUS rst0")
    case True
    then have "has_radio_status ?p1" by (simp add: handle_message_eq)
    then show ?thesis unfolding step by (rule deliver_latch)
  next
    case False
    with Cons.prems have "MAVLINK_MSG_ID_RADIO_STATUS rst0 \<in> ev_msg ` set evs" by auto
    then show ?thesis unfolding step by (rule Cons.IH)
  qed
qed

lemma deliver_append: "snd (deliver (evs @ later) p) = snd (deliver later (snd (deliver evs p)))"
  by (induction evs arbitrary: p) (simp_all add: split_beta Let_def)

section \<open>The claims\<close>

text \<open>
  C1. \<open>run\<close> chooses the summary by the first condition that holds. With no sample
  received it reports level 2 with the message "No data", whatever the threshold is, and
  2 is neither the level of a low RSSI (1) nor the level of a normal link (0). Otherwise
  a local RSSI below the threshold gives level 1, "Low RSSI", and the remote RSSI is not
  looked at, so such a sample never reports "Low remote RSSI". Otherwise a remote RSSI
  below the threshold gives level 1, "Low remote RSSI". Otherwise level 0, "Normal".
\<close>

theorem run_summary_first_match:
  "(level (snd (TDRRadioStatus_run st stat)), message (snd (TDRRadioStatus_run st stat))) =
     (if \<not> data_received st then (2, ''No data'')
      else if rssi (last_rst st) < low_rssi st then (1, ''Low RSSI'')
      else if remrssi (last_rst st) < low_rssi st then (1, ''Low remote RSSI'')
      else (0, ''Normal''))
   \<and> (data_received st \<and> rssi (last_rst st) < low_rssi st
        \<longrightarrow> message (snd (TDRRadioStatus_run st stat)) \<noteq> ''Low remote RSSI'')"
  by (simp add: run_level_message)

text \<open>The spec's example: threshold 40, RSSI 30, remote RSSI 50.\<close>

theorem run_summary_first_match_witness:
  "data_received (TDRRadioStatus_set
       \<lparr>rxerrors = 0, fixed = 0, rssi = 30, remrssi = 50, txbuf = 0, noise = 0, remnoise = 0\<rparr>
       (TDRRadioStatus_init ''3DR Radio'' 40))
   \<and> rssi (last_rst (TDRRadioStatus_set
       \<lparr>rxerrors = 0, fixed = 0, rssi = 30, remrssi = 50, txbuf = 0, noise = 0, remnoise = 0\<rparr>
       (TDRRadioStatus_init ''3DR Radio'' 40)))
     < low_rssi (TDRRadioStatus_set
       \<lparr>rxerrors = 0, fixed = 0, rssi = 30, remrssi = 50, txbuf = 0, noise = 0, remnoise = 0\<rparr>
       (TDRRadioStatus_init ''3DR Radio'' 40))
   \<and> message (snd (TDRRadioStatus_run (TDRRadioStatus_set
       \<lparr>rxerrors = 0, fixed = 0, rssi = 30, remrssi = 50, txbuf = 0, noise = 0, remnoise = 0\<rparr>
       (TDRRadioStatus_init ''3DR Radio'' 40)) empty_status)) = ''Low RSSI''
   \<and> message (snd (TDRRadioStatus_run (TDRRadioStatus_set
       \<lparr>rxerrors = 0, fixed = 0, rssi = 30, remrssi = 50, txbuf = 0, noise = 0, remnoise = 0\<rparr>
       (TDRRadioStatus_init ''3DR Radio'' 40)) empty_status)) \<noteq> ''Low remote RSSI''
   \<and> level (snd (TDRRadioStatus_run (TDRRadioStatus_set
       \<lparr>rxerrors = 0, fixed = 0, rssi = 30, remrssi = 50, txbuf = 0, noise = 0, remnoise = 0\<rparr>
       (TDRRadioStatus_init ''3DR Radio'' 40)) empty_status)) = 1"
  using run_summary_first_match [of "TDRRadioStatus_set
       \<lparr>rxerrors = 0, fixed = 0, rssi = 30, remrssi = 50, txbuf = 0, noise = 0, remnoise = 0\<rparr>
       (TDRRadioStatus_init ''3DR Radio'' 40)" empty_status]
  by (simp add: set_eq TDRRadioStatus_init_def)

text \<open>
  C2. Once a \<open>RADIO_STATUS\<close> message has been delivered, whatever is delivered
  afterwards, the flag \<open>has_radio_status\<close> is set and stays set, and a \<open>RADIO\<close>
  message is ignored: the callback leaves the plugin as it is, the stored sample and
  \<open>data_received\<close> with it, publishes nothing and logs nothing.
\<close>

theorem legacy_radio_suppressed:
  assumes "MAVLINK_MSG_ID_RADIO_STATUS rst0 \<in> ev_msg ` set evs"
  shows "has_radio_status (snd (deliver (evs @ later) p))
   \<and> TDRRadioPlugin_message_rx_cb now (MAVLINK_MSG_ID_RADIO rst) sysid compid
        (snd (deliver (evs @ later) p)) = ([], snd (deliver (evs @ later) p))"
proof -
  from assms have "has_radio_status (snd (deliver evs p))" by (rule deliver_sets_flag)
  then have "has_radio_status (snd (deliver (evs @ later) p))"
    unfolding deliver_append by (rule deliver_latch)
  then show ?thesis by simp
qed

theorem legacy_radio_suppressed_witness:
  "MAVLINK_MSG_ID_RADIO_STATUS
       \<lparr>rxerrors = 0, fixed = 0, rssi = 60, remrssi = 70, txbuf = 0, noise = 0, remnoise = 0\<rparr>
     \<in> ev_msg ` set [\<lparr>ev_now = \<lparr>sec = 1, nsec = 0\<rparr>, ev_msg = MAVLINK_MSG_ID_RADIO_STATUS
       \<lparr>rxerrors = 0, fixed = 0, rssi = 60, remrssi = 70, txbuf = 0, noise = 0, remnoise = 0\<rparr>,
       ev_sysid = 0x33, ev_compid = 0x44\<rparr>]
   \<and> deliver ([\<lparr>ev_now = \<lparr>sec = 1, nsec = 0\<rparr>, ev_msg = MAVLINK_MSG_ID_RADIO_STATUS
       \<lparr>rxerrors = 0, fixed = 0, rssi = 60, remrssi = 70, txbuf = 0, noise = 0, remnoise = 0\<rparr>,
       ev_sysid = 0x33, ev_compid = 0x44\<rparr>]
     @ [\<lparr>ev_now = \<lparr>sec = 2, nsec = 0\<rparr>, ev_msg = MAVLINK_MSG_ID_RADIO
       \<lparr>rxerrors = 9, fixed = 9, rssi = 10, remrssi = 10, txbuf = 9, noise = 9, remnoise = 9\<rparr>,
       ev_sysid = 0x33, ev_compid = 0x44\<rparr>]) TDRRadioPlugin_init
     = ([Publish \<lparr>rxerrors = 0, fixed = 0, rssi = 60, remrssi = 70, txbuf = 0, noise = 0,
                   remnoise = 0, header_stamp = \<lparr>sec = 1, nsec = 0\<rparr>\<rparr>],
        \<lparr>tdr_diag = \<lparr>task_name = ''3DR Radio'',
            last_rst = \<lparr>rxerrors = 0, fixed = 0, rssi = 60, remrssi = 70, txbuf = 0, noise = 0, remnoise = 0\<rparr>,
            data_received = True, low_rssi = 40\<rparr>,
          has_radio_status = True\<rparr>)
   \<and> TDRRadioPlugin_message_rx_cb \<lparr>sec = 3, nsec = 0\<rparr> (MAVLINK_MSG_ID_RADIO
       \<lparr>rxerrors = 9, fixed = 9, rssi = 10, remrssi = 10, txbuf = 9, noise = 9, remnoise = 9\<rparr>)
       0x33 0x44
       (snd (deliver ([\<lparr>ev_now = \<lparr>sec = 1, nsec = 0\<rparr>, ev_msg = MAVLINK_MSG_ID_RADIO_STATUS
       \<lparr>rxerrors = 0, fixed = 0, rssi = 60, remrssi = 70, txbuf = 0, noise = 0, remnoise = 0\<rparr>,
       ev_sysid = 0x33, ev_compid = 0x44\<rparr>]
     @ [\<lparr>ev_now = \<lparr>sec = 2, nsec = 0\<rparr>, ev_msg = MAVLINK_MSG_ID_RADIO
       \<lparr>rxerrors = 9, fixed = 9, rssi = 10, remrssi = 10, txbuf = 9, noise = 9, remnoise = 9\<rparr>,
       ev_sysid = 0x33, ev_compid = 0x44\<rparr>]) TDRRadioPlugin_init))
     = ([], \<lparr>tdr_diag = \<lparr>task_name = ''3DR Radio'',
            last_rst = \<lparr>rxerrors = 0, fixed = 0, rssi = 60, remrssi = 70, txbuf = 0, noise = 0, remnoise = 0\<rparr>,
            data_received = True, low_rssi = 40\<rparr>,
          has_radio_status = True\<rparr>)"
proof -
  have h: "MAVLINK_MSG_ID_RADIO_STATUS
       \<lparr>rxerrors = 0, fixed = 0, rssi = 60, remrssi = 70, txbuf = 0, noise = 0, remnoise = 0\<rparr>
     \<in> ev_msg ` set [\<lparr>ev_now = \<lparr>sec = 1, nsec = 0\<rparr>, ev_msg = MAVLINK_MSG_ID_RADIO_STATUS
       \<lparr>rxerrors = 0, fixed = 0, rssi = 60, remrssi = 70, txbuf = 0, noise = 0, remnoise = 0\<rparr>,
       ev_sysid = 0x33, ev_compid = 0x44\<rparr>]"
    by simp
  show ?thesis
    using h legacy_radio_suppressed [OF h, of
      "[\<lparr>ev_now = \<lparr>sec = 2, nsec = 0\<rparr>, ev_msg = MAVLINK_MSG_ID_RADIO
       \<lparr>rxerrors = 9, fixed = 9, rssi = 10, remrssi = 10, txbuf = 9, noise = 9, remnoise = 9\<rparr>,
       ev_sysid = 0x33, ev_compid = 0x44\<rparr>]" TDRRadioPlugin_init "\<lparr>sec = 3, nsec = 0\<rparr>"
      "\<lparr>rxerrors = 9, fixed = 9, rssi = 10, remrssi = 10, txbuf = 9, noise = 9, remnoise = 9\<rparr>"
      "0x33" "0x44"]
    by (simp add: handle_message_eq set_eq TDRRadioPlugin_init_def TDRRadioStatus_init_def)
qed

text \<open>
  C3. For every sample \<open>s\<close>, \<open>set\<close> returns the object with \<open>data_received\<close> true and
  \<open>last_rst\<close> equal to \<open>s\<close> in all seven fields, and changes nothing else: the
  threshold is as before. It is total, there is no failure. The report of a \<open>run\<close>
  that follows is computed from \<open>s\<close> and the threshold alone: the summary compares the
  RSSI and the remote RSSI of \<open>s\<close> with the threshold, and the nine pairs appended are
  the seven fields of \<open>s\<close> and the two values derived from its RSSI and its remote
  RSSI. So it is the same from every object with that threshold, whatever it held
  before.
\<close>

theorem set_overwrites_sample:
  "TDRRadioStatus_set s st = st\<lparr>data_received := True, last_rst := s\<rparr>
   \<and> data_received (TDRRadioStatus_set s st)
   \<and> last_rst (TDRRadioStatus_set s st) = s
   \<and> low_rssi (TDRRadioStatus_set s st) = low_rssi st
   \<and> TDRRadioStatus_run (TDRRadioStatus_set s st) stat =
       (TDRRadioStatus_set s st,
        stat\<lparr>level := (if rssi s < low_rssi st then 1
                        else if remrssi s < low_rssi st then 1 else 0),
              message := (if rssi s < low_rssi st then ''Low RSSI''
                          else if remrssi s < low_rssi st then ''Low remote RSSI''
                          else ''Normal''),
              key_values := key_values stat @
                [(''RSSI'', printf_u (uint (rssi s))),
                 (''RSSI (dBm)'', printf_1f (rssi_dbm_c (rssi s))),
                 (''Remote RSSI'', printf_u (uint (remrssi s))),
                 (''Remote RSSI (dBm)'', printf_1f (rssi_dbm_c (remrssi s))),
                 (''Tx buffer (%)'', printf_u (uint (txbuf s))),
                 (''Noice level'', printf_u (uint (noise s))),
                 (''Remote noice level'', printf_u (uint (remnoise s))),
                 (''Rx errors'', printf_u (uint (rxerrors s))),
                 (''Fixed'', printf_u (uint (fixed s)))]\<rparr>)
   \<and> printf_1f (rssi_dbm_c (rssi s)) = printf_1f (spec_rssi_dBm (rssi s))
   \<and> printf_1f (rssi_dbm_c (remrssi s)) = printf_1f (spec_rssi_dBm (remrssi s))
   \<and> (low_rssi st' = low_rssi st \<longrightarrow>
        snd (TDRRadioStatus_run (TDRRadioStatus_set s st') stat)
          = snd (TDRRadioStatus_run (TDRRadioStatus_set s st) stat))"
proof -
  have r: "TDRRadioStatus_run (TDRRadioStatus_set s st) stat =
       (TDRRadioStatus_set s st,
        stat\<lparr>level := (if rssi s < low_rssi st then 1
                        else if remrssi s < low_rssi st then 1 else 0),
              message := (if rssi s < low_rssi st then ''Low RSSI''
                          else if remrssi s < low_rssi st then ''Low remote RSSI''
                          else ''Normal''),
              key_values := key_values stat @
                [(''RSSI'', printf_u (uint (rssi s))),
                 (''RSSI (dBm)'', printf_1f (rssi_dbm_c (rssi s))),
                 (''Remote RSSI'', printf_u (uint (remrssi s))),
                 (''Remote RSSI (dBm)'', printf_1f (rssi_dbm_c (remrssi s))),
                 (''Tx buffer (%)'', printf_u (uint (txbuf s))),
                 (''Noice level'', printf_u (uint (noise s))),
                 (''Remote noice level'', printf_u (uint (remnoise s))),
                 (''Rx errors'', printf_u (uint (rxerrors s))),
                 (''Fixed'', printf_u (uint (fixed s)))]\<rparr>)" for st
    by (simp add: prod_eq_iff run_state DiagnosticStatusWrapper.equality
        run_level_message run_appends run_other_fields set_eq)
  have n: "low_rssi st' = low_rssi st \<longrightarrow>
        snd (TDRRadioStatus_run (TDRRadioStatus_set s st') stat)
          = snd (TDRRadioStatus_run (TDRRadioStatus_set s st) stat)"
    by (simp add: r)
  have e: "TDRRadioStatus_set s st = st\<lparr>data_received := True, last_rst := s\<rparr>"
    by (rule set_eq)
  have d: "data_received (TDRRadioStatus_set s st)" "last_rst (TDRRadioStatus_set s st) = s"
    "low_rssi (TDRRadioStatus_set s st) = low_rssi st"
    by (simp_all add: set_eq)
  from e d r[of st] printf_1f_rssi_dbm_c[of "rssi s"] printf_1f_rssi_dbm_c[of "remrssi s"] n
  show ?thesis by (intro conjI)
qed

text \<open>
  The spec's example, a sample with RSSI 100, written over an older sample: the report
  shows 100 and -74.4 and nothing of the older sample.
\<close>

theorem set_overwrites_sample_witness:
  "low_rssi (TDRRadioStatus_set
       \<lparr>rxerrors = 7, fixed = 9, rssi = 20, remrssi = 30, txbuf = 1, noise = 2, remnoise = 3\<rparr>
       (TDRRadioStatus_init ''other'' 40)) = low_rssi (TDRRadioStatus_init ''3DR Radio'' 40)
   \<and> snd (TDRRadioStatus_run (TDRRadioStatus_set
       \<lparr>rxerrors = 300, fixed = 65535, rssi = 100, remrssi = 0, txbuf = 99, noise = 12, remnoise = 255\<rparr>
       (TDRRadioStatus_set
         \<lparr>rxerrors = 7, fixed = 9, rssi = 20, remrssi = 30, txbuf = 1, noise = 2, remnoise = 3\<rparr>
         (TDRRadioStatus_init ''other'' 40))) empty_status)
     = snd (TDRRadioStatus_run (TDRRadioStatus_set
       \<lparr>rxerrors = 300, fixed = 65535, rssi = 100, remrssi = 0, txbuf = 99, noise = 12, remnoise = 255\<rparr>
       (TDRRadioStatus_init ''3DR Radio'' 40)) empty_status)
   \<and> snd (TDRRadioStatus_run (TDRRadioStatus_set
       \<lparr>rxerrors = 300, fixed = 65535, rssi = 100, remrssi = 0, txbuf = 99, noise = 12, remnoise = 255\<rparr>
       (TDRRadioStatus_set
         \<lparr>rxerrors = 7, fixed = 9, rssi = 20, remrssi = 30, txbuf = 1, noise = 2, remnoise = 3\<rparr>
         (TDRRadioStatus_init ''other'' 40))) empty_status)
     = \<lparr>level = 1, name = [], message = ''Low remote RSSI'', hardware_id = [],
        key_values = [(''RSSI'', ''100''), (''RSSI (dBm)'', ''-74.4''), (''Remote RSSI'', ''0''),
          (''Remote RSSI (dBm)'', ''-127.0''), (''Tx buffer (%)'', ''99''), (''Noice level'', ''12''),
          (''Remote noice level'', ''255''), (''Rx errors'', ''300''), (''Fixed'', ''65535'')]\<rparr>"
proof -
  have u: "printf_u 100 = ''100''" "printf_u 0 = ''0''" "printf_u 99 = ''99''" "printf_u 12 = ''12''"
    "printf_u 255 = ''255''" "printf_u 300 = ''300''" "printf_u 65535 = ''65535''"
    by code_simp+
  show ?thesis
    using set_overwrites_sample [of
       "\<lparr>rxerrors = 300, fixed = 65535, rssi = 100, remrssi = 0, txbuf = 99, noise = 12, remnoise = 255\<rparr>"
       "TDRRadioStatus_set
         \<lparr>rxerrors = 7, fixed = 9, rssi = 20, remrssi = 30, txbuf = 1, noise = 2, remnoise = 3\<rparr>
         (TDRRadioStatus_init ''other'' 40)" empty_status
       "TDRRadioStatus_init ''3DR Radio'' 40"]
    by (simp add: set_eq TDRRadioStatus_init_def empty_status_def u printf_1f_dbm_0 printf_1f_dbm_100)
qed

text \<open>
  C4. The two derived values of the report are the value of \<open>(x / 1.9) - 127\<close> for
  the stored RSSI and, by the same expression, for the stored remote RSSI. The value
  the code stores in its \<open>float\<close> is within \<open>0.00002\<close> of the exact value of the
  formula with the coefficients 1.9 and 127, and it prints, with one decimal, as the
  exact value does. For a raw RSSI of 100 it is within \<open>0.01\<close> of \<open>-74.37\<close>.
\<close>

theorem run_dbm_values:
  "key_values (snd (TDRRadioStatus_run st stat)) ! (length (key_values stat) + 1)
     = (''RSSI (dBm)'', printf_1f (rssi_dbm_c (rssi (last_rst st))))
   \<and> key_values (snd (TDRRadioStatus_run st stat)) ! (length (key_values stat) + 3)
     = (''Remote RSSI (dBm)'', printf_1f (rssi_dbm_c (remrssi (last_rst st))))
   \<and> spec_rssi_dBm x = of_int (uint x) / (19 / 10) - 127
   \<and> \<bar>rssi_dbm_c x - spec_rssi_dBm x\<bar> < 1 / 50000
   \<and> printf_1f (rssi_dbm_c x) = printf_1f (spec_rssi_dBm x)
   \<and> \<bar>rssi_dbm_c 100 - (- 7437 / 100)\<bar> < 1 / 100"
proof -
  have a: "\<bar>rssi_dbm_c x - spec_rssi_dBm x\<bar> < 1 / 50000" for x
    by (rule rssi_dbm_c_close)
  have b: "printf_1f (rssi_dbm_c x) = printf_1f (spec_rssi_dBm x)"
    by (rule printf_1f_rssi_dbm_c)
  have s: "spec_rssi_dBm x = of_int (uint x) / (19 / 10) - 127" for x
    by (simp only: spec_rssi_dBm_def)
  have h: "spec_rssi_dBm 100 = - 1413 / 19" by (simp add: spec_rssi_dBm_def)
  have "\<bar>rssi_dbm_c 100 - (- 1413 / 19)\<bar> < 1 / 50000"
    using a[of 100] by (simp only: h)
  then have c: "\<bar>rssi_dbm_c 100 - (- 7437 / 100)\<bar> < 1 / 100" by linarith
  have d: "key_values (snd (TDRRadioStatus_run st stat)) ! (length (key_values stat) + 1)
     = (''RSSI (dBm)'', printf_1f (rssi_dbm_c (rssi (last_rst st))))"
    by (simp add: run_appends nth_append)
  have e: "key_values (snd (TDRRadioStatus_run st stat)) ! (length (key_values stat) + 3)
     = (''Remote RSSI (dBm)'', printf_1f (rssi_dbm_c (remrssi (last_rst st))))"
    by (simp add: run_appends nth_append)
  from d e s[of x] a[of x] b c show ?thesis by (intro conjI)
qed

theorem run_dbm_values_witness:
  "key_values (snd (TDRRadioStatus_run (TDRRadioStatus_set
       \<lparr>rxerrors = 0, fixed = 0, rssi = 100, remrssi = 0, txbuf = 0, noise = 0, remnoise = 0\<rparr>
       (TDRRadioStatus_init ''3DR Radio'' 40)) empty_status)) ! 1 = (''RSSI (dBm)'', ''-74.4'')
   \<and> key_values (snd (TDRRadioStatus_run (TDRRadioStatus_set
       \<lparr>rxerrors = 0, fixed = 0, rssi = 100, remrssi = 0, txbuf = 0, noise = 0, remnoise = 0\<rparr>
       (TDRRadioStatus_init ''3DR Radio'' 40)) empty_status)) ! 3 = (''Remote RSSI (dBm)'', ''-127.0'')"
  using run_dbm_values [of "TDRRadioStatus_set
       \<lparr>rxerrors = 0, fixed = 0, rssi = 100, remrssi = 0, txbuf = 0, noise = 0, remnoise = 0\<rparr>
       (TDRRadioStatus_init ''3DR Radio'' 40)" empty_status 100]
  by (simp add: set_eq TDRRadioStatus_init_def empty_status_def printf_1f_dbm_0 printf_1f_dbm_100)

text \<open>
  C5. A sample whose sender is not system \<open>'3'\<close>, component \<open>'D'\<close> is handled as one
  from that sender is: the plugin afterwards is the same, the same message is published,
  and the one difference is the throttled warning, with period 30, in front of the
  publication. \<open>handle_message\<close> is total and returns no error.
\<close>

theorem handle_message_mismatch_only_warns:
  "snd (TDRRadioPlugin_handle_message now rst sysid compid p)
     = snd (TDRRadioPlugin_handle_message now rst 0x33 0x44 p)
   \<and> fst (TDRRadioPlugin_handle_message now rst sysid compid p)
     = (if sysid = 0x33 \<and> compid = 0x44 then []
        else [Warn_throttle_named 30 ''radio'' ''RADIO_STATUS not from 3DR modem?''])
       @ fst (TDRRadioPlugin_handle_message now rst 0x33 0x44 p)
   \<and> fst (TDRRadioPlugin_handle_message now rst 0x33 0x44 p)
     = [Publish \<lparr>rxerrors = rxerrors rst, fixed = fixed rst, rssi = rssi rst,
                  remrssi = remrssi rst, txbuf = txbuf rst, noise = noise rst,
                  remnoise = remnoise rst, header_stamp = now\<rparr>]
   \<and> tdr_diag (snd (TDRRadioPlugin_handle_message now rst sysid compid p))
     = TDRRadioStatus_set rst (tdr_diag p)
   \<and> has_radio_status (snd (TDRRadioPlugin_handle_message now rst sysid compid p))
     = has_radio_status p"
  by (simp add: handle_message_eq)

theorem handle_message_mismatch_only_warns_witness:
  "TDRRadioPlugin_handle_message \<lparr>sec = 5, nsec = 0\<rparr>
      \<lparr>rxerrors = 1, fixed = 2, rssi = 60, remrssi = 70, txbuf = 99, noise = 4, remnoise = 5\<rparr>
      1 1 TDRRadioPlugin_init
   = ([Warn_throttle_named 30 ''radio'' ''RADIO_STATUS not from 3DR modem?'',
       Publish \<lparr>rxerrors = 1, fixed = 2, rssi = 60, remrssi = 70, txbuf = 99, noise = 4,
                remnoise = 5, header_stamp = \<lparr>sec = 5, nsec = 0\<rparr>\<rparr>],
      snd (TDRRadioPlugin_handle_message \<lparr>sec = 5, nsec = 0\<rparr>
      \<lparr>rxerrors = 1, fixed = 2, rssi = 60, remrssi = 70, txbuf = 99, noise = 4, remnoise = 5\<rparr>
      0x33 0x44 TDRRadioPlugin_init))"
  using handle_message_mismatch_only_warns [of "\<lparr>sec = 5, nsec = 0\<rparr>"
      "\<lparr>rxerrors = 1, fixed = 2, rssi = 60, remrssi = 70, txbuf = 99, noise = 4, remnoise = 5\<rparr>"
      1 1 TDRRadioPlugin_init]
  by (simp add: prod_eq_iff)

text \<open>
  C6. The tracker is in one of two states, \<open>data_received\<close> false or true. A new
  object has it false, \<open>set\<close> makes it true, \<open>run\<close> leaves it as it is, and once it is
  true it is true after every sequence of calls of \<open>set\<close> and \<open>run\<close>.
\<close>

theorem data_received_absorbing:
  "\<not> data_received (TDRRadioStatus_init nm lowrssi)
   \<and> data_received (TDRRadioStatus_set rst st)
   \<and> data_received (fst (TDRRadioStatus_run st stat)) = data_received st
   \<and> (data_received st \<longrightarrow> data_received (tracker_calls cs st))"
  by (simp add: set_eq run_state tracker_calls_keep TDRRadioStatus_init_def)

theorem data_received_absorbing_witness:
  "data_received (TDRRadioStatus_set
       \<lparr>rxerrors = 0, fixed = 0, rssi = 1, remrssi = 2, txbuf = 3, noise = 4, remnoise = 5\<rparr>
       (TDRRadioStatus_init ''3DR Radio'' 40))
   \<and> data_received (tracker_calls
       [Call_run empty_status,
        Call_set \<lparr>rxerrors = 0, fixed = 0, rssi = 0, remrssi = 0, txbuf = 0, noise = 0, remnoise = 0\<rparr>,
        Call_run empty_status]
       (TDRRadioStatus_set
         \<lparr>rxerrors = 0, fixed = 0, rssi = 1, remrssi = 2, txbuf = 3, noise = 4, remnoise = 5\<rparr>
         (TDRRadioStatus_init ''3DR Radio'' 40)))"
  using data_received_absorbing [of "''3DR Radio''" 40
       "\<lparr>rxerrors = 0, fixed = 0, rssi = 1, remrssi = 2, txbuf = 3, noise = 4, remnoise = 5\<rparr>"
       "TDRRadioStatus_set
         \<lparr>rxerrors = 0, fixed = 0, rssi = 1, remrssi = 2, txbuf = 3, noise = 4, remnoise = 5\<rparr>
         (TDRRadioStatus_init ''3DR Radio'' 40)"
       empty_status
       "[Call_run empty_status,
        Call_set \<lparr>rxerrors = 0, fixed = 0, rssi = 0, remrssi = 0, txbuf = 0, noise = 0, remnoise = 0\<rparr>,
        Call_run empty_status]"]
  by (simp add: set_eq)

text \<open>
  C7. \<open>run\<close> only reads the object: it returns it unchanged, \<open>data_received\<close>,
  \<open>last_rst\<close> and \<open>low_rssi\<close> included, and a second \<open>run\<close> on the same status gives
  the same report as the first, character by character.
\<close>

theorem run_pure_reader:
  "fst (TDRRadioStatus_run st stat) = st
   \<and> TDRRadioStatus_run (fst (TDRRadioStatus_run st stat)) stat = TDRRadioStatus_run st stat
   \<and> data_received (fst (TDRRadioStatus_run st stat)) = data_received st
   \<and> last_rst (fst (TDRRadioStatus_run st stat)) = last_rst st
   \<and> low_rssi (fst (TDRRadioStatus_run st stat)) = low_rssi st"
  by (simp add: run_state)

theorem run_pure_reader_witness:
  "TDRRadioStatus_run (fst (TDRRadioStatus_run (TDRRadioStatus_init ''3DR Radio'' 40) empty_status))
      empty_status
   = TDRRadioStatus_run (TDRRadioStatus_init ''3DR Radio'' 40) empty_status"
  using run_pure_reader [of "TDRRadioStatus_init ''3DR Radio'' 40" empty_status]
  by simp

text \<open>
  C8, as amended. Every \<open>run\<close> leaves the pairs the status already had and appends
  exactly nine: the raw RSSI, the RSSI in dBm, the raw remote RSSI, the remote RSSI in
  dBm, the transmit buffer, the noise, the remote noise, the receive errors and the fixed
  count, in this order, the integers in decimal and the dBm values with one decimal. The
  first five are labelled "RSSI", "RSSI (dBm)", "Remote RSSI", "Remote RSSI (dBm)" and
  "Tx buffer (%)", the last two "Rx errors" and "Fixed". The spelling of the two noise
  labels is left open.
\<close>

theorem run_key_values_order:
  "take (length (key_values stat)) (key_values (snd (TDRRadioStatus_run st stat))) = key_values stat
   \<and> length (drop (length (key_values stat)) (key_values (snd (TDRRadioStatus_run st stat)))) = 9
   \<and> map snd (drop (length (key_values stat)) (key_values (snd (TDRRadioStatus_run st stat))))
     = [printf_u (uint (rssi (last_rst st))),
        printf_1f (spec_rssi_dBm (rssi (last_rst st))),
        printf_u (uint (remrssi (last_rst st))),
        printf_1f (spec_rssi_dBm (remrssi (last_rst st))),
        printf_u (uint (txbuf (last_rst st))),
        printf_u (uint (noise (last_rst st))),
        printf_u (uint (remnoise (last_rst st))),
        printf_u (uint (rxerrors (last_rst st))),
        printf_u (uint (fixed (last_rst st)))]
   \<and> take 5 (map fst (drop (length (key_values stat)) (key_values (snd (TDRRadioStatus_run st stat)))))
     = [''RSSI'', ''RSSI (dBm)'', ''Remote RSSI'', ''Remote RSSI (dBm)'', ''Tx buffer (%)'']
   \<and> drop 7 (map fst (drop (length (key_values stat)) (key_values (snd (TDRRadioStatus_run st stat)))))
     = [''Rx errors'', ''Fixed'']"
  by (simp add: run_appends printf_1f_rssi_dbm_c)

theorem run_key_values_order_witness:
  "map snd (key_values (snd (TDRRadioStatus_run (TDRRadioStatus_set
       \<lparr>rxerrors = 300, fixed = 65535, rssi = 100, remrssi = 0, txbuf = 99, noise = 12, remnoise = 255\<rparr>
       (TDRRadioStatus_init ''3DR Radio'' 40)) empty_status)))
     = [''100'', ''-74.4'', ''0'', ''-127.0'', ''99'', ''12'', ''255'', ''300'', ''65535'']"
proof -
  have u: "printf_u 100 = ''100''" "printf_u 0 = ''0''" "printf_u 99 = ''99''" "printf_u 12 = ''12''"
    "printf_u 255 = ''255''" "printf_u 300 = ''300''" "printf_u 65535 = ''65535''"
    by code_simp+
  have f: "printf_1f (spec_rssi_dBm 100) = ''-74.4''" "printf_1f (spec_rssi_dBm 0) = ''-127.0''"
    by code_simp+
  show ?thesis
    using run_key_values_order [of empty_status "TDRRadioStatus_set
       \<lparr>rxerrors = 300, fixed = 65535, rssi = 100, remrssi = 0, txbuf = 99, noise = 12, remnoise = 255\<rparr>
       (TDRRadioStatus_init ''3DR Radio'' 40)"]
    by (simp add: set_eq TDRRadioStatus_init_def empty_status_def u f)
qed

text \<open>
  C8 as the spec states it fails: the labels of a report are not the nine of the spec,
  "RSSI(dBm)", "Tx buffer %", "Noise", "Fixed-error count" and the others.
\<close>

theorem run_labels_spec_counterexample:
  "map fst (key_values (snd (TDRRadioStatus_run (TDRRadioStatus_init ''3DR Radio'' 40) empty_status)))
     \<noteq> [''RSSI'', ''RSSI(dBm)'', ''Remote RSSI'', ''Remote RSSI(dBm)'', ''Tx buffer %'',
         ''Noise'', ''Remote noise'', ''Rx errors'', ''Fixed-error count'']"
  by (simp add: run_appends empty_status_def)

text \<open>
  C10. Before any \<open>set\<close>, \<open>run\<close> reports level 2, "No data", and still appends all
  nine pairs, computed from the zeroed sample: every raw value prints as 0, and the two
  dBm values, \<open>0 / 1.9 - 127 = -127\<close>, print as -127.0.
\<close>

theorem run_before_set_full_report:
  "level (snd (TDRRadioStatus_run (TDRRadioStatus_init nm lowrssi) stat)) = 2
   \<and> message (snd (TDRRadioStatus_run (TDRRadioStatus_init nm lowrssi) stat)) = ''No data''
   \<and> key_values (snd (TDRRadioStatus_run (TDRRadioStatus_init nm lowrssi) stat)) = key_values stat @
       [(''RSSI'', ''0''), (''RSSI (dBm)'', ''-127.0''), (''Remote RSSI'', ''0''),
        (''Remote RSSI (dBm)'', ''-127.0''), (''Tx buffer (%)'', ''0''), (''Noice level'', ''0''),
        (''Remote noice level'', ''0''), (''Rx errors'', ''0''), (''Fixed'', ''0'')]
   \<and> rssi_dbm_c 0 = - 127
   \<and> spec_rssi_dBm 0 = - 127"
proof -
  have a: "rssi_dbm_c 0 = - 127" by code_simp
  have b: "spec_rssi_dBm 0 = - 127" by (simp add: spec_rssi_dBm_def)
  have c: "level (snd (TDRRadioStatus_run (TDRRadioStatus_init nm lowrssi) stat)) = 2
   \<and> message (snd (TDRRadioStatus_run (TDRRadioStatus_init nm lowrssi) stat)) = ''No data''
   \<and> key_values (snd (TDRRadioStatus_run (TDRRadioStatus_init nm lowrssi) stat)) = key_values stat @
       [(''RSSI'', ''0''), (''RSSI (dBm)'', ''-127.0''), (''Remote RSSI'', ''0''),
        (''Remote RSSI (dBm)'', ''-127.0''), (''Tx buffer (%)'', ''0''), (''Noice level'', ''0''),
        (''Remote noice level'', ''0''), (''Rx errors'', ''0''), (''Fixed'', ''0'')]"
    by (simp add: run_level_message run_appends TDRRadioStatus_init_def printf_u_0 printf_1f_dbm_0)
  from a b c show ?thesis by (intro conjI) simp_all
qed

theorem run_before_set_full_report_witness:
  "snd (TDRRadioStatus_run (TDRRadioStatus_init ''3DR Radio'' 40) empty_status) =
     \<lparr>level = 2, name = [], message = ''No data'', hardware_id = [],
      key_values = [(''RSSI'', ''0''), (''RSSI (dBm)'', ''-127.0''), (''Remote RSSI'', ''0''),
        (''Remote RSSI (dBm)'', ''-127.0''), (''Tx buffer (%)'', ''0''), (''Noice level'', ''0''),
        (''Remote noice level'', ''0''), (''Rx errors'', ''0''), (''Fixed'', ''0'')]\<rparr>"
  using run_before_set_full_report [of "''3DR Radio''" 40 empty_status]
  by (simp add: DiagnosticStatusWrapper.equality run_other_fields empty_status_def)

end
